theory Spec2Isabelle
  imports Complex_Main
begin

section \<open>The detection-result pipeline of detect.py\<close>

text \<open>
  The module detect.py holds three functions: \<open>get_coco_names\<close>, \<open>overlay_boxes\<close> and
  \<open>main\<close>. Each is embedded below as a HOL function. Exceptions are values of
  \<open>py_error\<close>; the console, the files of the output directory and the frame raster that
  the drawing primitive mutates in place are fields of an explicit \<open>state\<close>.
  Floating-point numbers are idealised as rationals.
\<close>

subsection \<open>Python values and errors\<close>

datatype py_error = NameError | TypeError | IndexError | UnboundLocalError

text \<open>Indexing a Python list: negative indices count from the end.\<close>

definition py_index :: "'a list \<Rightarrow> int \<Rightarrow> py_error + 'a" where
  "py_index xs i =
     (let n = int (length xs) in
      if 0 \<le> i \<and> i < n then Inr (xs ! nat i)
      else if - n \<le> i \<and> i < 0 then Inr (xs ! nat (n + i))
      else Inl IndexError)"

text \<open>\<open>str.strip()\<close> removes leading and trailing whitespace (here: the ASCII one).\<close>

definition is_space :: "char \<Rightarrow> bool" where
  "is_space c = (c \<in> set [CHR 0x09, CHR 0x0A, CHR 0x0B, CHR 0x0C, CHR 0x0D,
                           CHR 0x1C, CHR 0x1D, CHR 0x1E, CHR 0x1F, CHR 0x20])"

definition strip :: "string \<Rightarrow> string" where
  "strip s = rev (dropWhile is_space (rev (dropWhile is_space s)))"

subsection \<open>pathlib\<close>

text \<open>
  A \<open>Path\<close> is a root flag and the list of its components. Parsing drops empty
  components and \<open>.\<close>; a leading double slash is read as a single one.
\<close>

record pure_path =
  anchored :: bool
  parts :: "string list"

fun split_on :: "char \<Rightarrow> string \<Rightarrow> string list" where
  "split_on d [] = [[]]"
| "split_on d (c # cs) =
     (if c = d then [] # split_on d cs
      else (case split_on d cs of [] \<Rightarrow> [[c]] | w # ws \<Rightarrow> (c # w) # ws))"

definition Path :: "string \<Rightarrow> pure_path" where
  "Path s = \<lparr> anchored = (case s of [] \<Rightarrow> False | c # _ \<Rightarrow> c = CHR ''/''),
              parts = filter (\<lambda>p. p \<noteq> [] \<and> p \<noteq> ''.'') (split_on (CHR ''/'') s) \<rparr>"

fun join_with :: "string \<Rightarrow> string list \<Rightarrow> string" where
  "join_with sep [] = []"
| "join_with sep [p] = p"
| "join_with sep (p # q # ps) = p @ sep @ join_with sep (q # ps)"

definition path_str :: "pure_path \<Rightarrow> string" where
  "path_str p =
     (if parts p = [] then (if anchored p then ''/'' else ''.'')
      else (if anchored p then ''/'' else '''') @ join_with ''/'' (parts p))"

definition path_name :: "pure_path \<Rightarrow> string" where
  "path_name p = (if parts p = [] then '''' else last (parts p))"

text \<open>
  \<open>stem\<close>: the name up to its last dot, unless that dot is the first or the last
  character of the name (or there is none).
\<close>

definition path_stem :: "pure_path \<Rightarrow> string" where
  "path_stem p =
     (let nm = path_name p;
          k = length (takeWhile (\<lambda>c. c \<noteq> CHR ''.'') (rev nm))
      in if CHR ''.'' \<in> set nm \<and> 0 < length nm - 1 - k \<and> 0 < k
         then take (length nm - 1 - k) nm else nm)"

definition joinpath :: "pure_path \<Rightarrow> string \<Rightarrow> pure_path" where
  "joinpath p s =
     (let q = Path s in
      if anchored q then q else \<lparr> anchored = anchored p, parts = parts p @ parts q \<rparr>)"

subsection \<open>Frames, detections, configuration\<close>

type_synonym box = "rat \<times> rat \<times> rat \<times> rat"

text \<open>
  A frame is its first two dimensions, its raster and the overlays drawn on it so far.
\<close>

record overlay =
  ov_box :: box
  ov_label :: string
  ov_color :: "nat list"
  ov_thickness :: nat

record image =
  shape2 :: "nat \<times> nat"
  pixels :: "nat list"
  drawn :: "overlay list"

text \<open>
  Modelled from the spec: \<open>plot_one_box\<close> of \<open>utils.general\<close> is not among the
  sources. The Overlay Renderer draws, for one detection, a rectangle at the box in the
  given colour and line thickness and the text label next to it, on the frame it is
  given; the frame keeps one overlay per call, in the order of the calls.
\<close>

definition plot_one_box :: "box \<Rightarrow> image \<Rightarrow> string \<Rightarrow> nat list \<Rightarrow> nat \<Rightarrow> image" where
  "plot_one_box xyxy im label color line_thickness =
     im\<lparr> drawn := drawn im @
          [\<lparr> ov_box = xyxy, ov_label = label, ov_color = color,
             ov_thickness = line_thickness \<rparr>] \<rparr>"

text \<open>
  One entry of \<open>detections\<close>: \<open>None\<close>, or the dictionary with the keys \<open>boxes\<close>,
  \<open>scores\<close> and \<open>labels\<close>.
\<close>

record detection_set =
  boxes :: "box list"
  scores :: "rat list"
  labels :: "int list"

type_synonym pred = "detection_set option"

text \<open>\<open>len\<close> of a dictionary counts its keys.\<close>

definition pred_len :: "detection_set \<Rightarrow> nat" where
  "pred_len d = length [''boxes'', ''scores'', ''labels'']"

record args =
  output_dir :: string
  webcam :: bool
  save_txt :: bool
  save_img :: bool
  view_img :: bool
  mode :: string
  names :: "string list"
  colors :: "nat list list"

text \<open>
  Parameters of the embedding, their code being outside the sources: the \<open>%g\<close>,
  \<open>%.2f\<close> and \<open>%.3f\<close> formats of numbers, the box conversion
  \<open>box_xyxy_to_cxcywh\<close> of \<open>utils.general\<close>, which line 49 calls with the box alone,
  and the image encoder behind \<open>cv2.imwrite\<close>.
\<close>

record lib =
  fmt_g :: "rat \<Rightarrow> string"
  fmt_2f :: "rat \<Rightarrow> string"
  fmt_3f :: "rat \<Rightarrow> string"
  box_xyxy_to_cxcywh :: "box \<Rightarrow> box"
  imencode :: "image \<Rightarrow> string"

text \<open>
  The state an observer sees: the lines printed, the files written, the frame raster
  \<open>img\<close>, and the frames shown in a window. The module never calls a display
  function, so nothing below extends \<open>shown\<close>.
\<close>

record state =
  console :: "string list"
  files :: "string \<rightharpoonup> string"
  img :: image
  shown :: "image list"

subsection \<open>Library functions with a fixed meaning\<close>

text \<open>\<open>Tensor.round\<close>: to the nearest integer, halves to the even one.\<close>

definition torch_round :: "rat \<Rightarrow> rat" where
  "torch_round x =
     (let f = \<lfloor>x\<rfloor>; d = x - of_int f in
      if d < 1 / 2 then of_int f
      else if 1 / 2 < d then of_int (f + 1)
      else if even f then of_int f else of_int (f + 1))"

definition round_box :: "box \<Rightarrow> box" where
  "round_box b = (case b of (x0, y0, x1, y1) \<Rightarrow>
     (torch_round x0, torch_round y0, torch_round x1, torch_round y1))"

text \<open>\<open>Tensor.unique()\<close>: the distinct elements, sorted in ascending order.\<close>

definition torch_unique :: "int list \<Rightarrow> int list" where
  "torch_unique xs = sort (remdups xs)"

text \<open>\<open>(labels == c).sum()\<close>\<close>

definition eq_sum :: "int list \<Rightarrow> int \<Rightarrow> nat" where
  "eq_sum xs c = length (filter (\<lambda>l. l = c) xs)"

text \<open>\<open>open(p, 'a')\<close> followed by \<open>write\<close>: the file is created when missing.\<close>

definition append_file :: "(string \<rightharpoonup> string) \<Rightarrow> string \<Rightarrow> string \<Rightarrow> (string \<rightharpoonup> string)" where
  "append_file fs p s = fs(p \<mapsto> (case fs p of None \<Rightarrow> [] | Some old \<Rightarrow> old) @ s)"

definition line_count :: "string \<Rightarrow> nat" where
  "line_count s = length (filter (\<lambda>c. c = CHR 0x0A) s)"

subsection \<open>get_coco_names\<close>

text \<open>The argument is the sequence of lines that iterating the opened file yields.\<close>

definition get_coco_names :: "string list \<Rightarrow> string list" where
  "get_coco_names file_lines = map strip file_lines"

subsection \<open>overlay_boxes\<close>

text \<open>Lines 41-43: the loop over \<open>labels.unique()\<close>, with the print string as accumulator.\<close>

fun class_summary :: "lib \<Rightarrow> string list \<Rightarrow> int list \<Rightarrow> int list \<Rightarrow> string \<Rightarrow> py_error + string" where
  "class_summary L nms lbls [] s = Inr s"
| "class_summary L nms lbls (c # cs) s =
     (let n = eq_sum lbls c in
      case py_index nms c of
        Inl e \<Rightarrow> Inl e
      | Inr nm \<Rightarrow> class_summary L nms lbls cs (s @ fmt_g L (of_nat n) @ '' '' @ nm @ ''s, ''))"

text \<open>Line 51: the text written for one detection.\<close>

definition label_line :: "lib \<Rightarrow> int \<Rightarrow> box \<Rightarrow> string" where
  "label_line L cls_name xyxy =
     (case box_xyxy_to_cxcywh L xyxy of (a, b, c, d) \<Rightarrow>
        fmt_g L (of_int cls_name) @ '' '' @ fmt_g L a @ '' '' @ fmt_g L b @ '' '' @
        fmt_g L c @ '' '' @ fmt_g L d @ '' '' @ [CHR 0x0A])"

text \<open>Lines 47-55: the body of the loop over \<open>zip(boxes, scores, labels)\<close>.\<close>

definition write_one :: "lib \<Rightarrow> args \<Rightarrow> string \<Rightarrow> box \<times> rat \<times> int \<Rightarrow> state \<Rightarrow> (py_error + unit) \<times> state" where
  "write_one L a txt_path det st =
     (case det of (xyxy, conf, cls_name) \<Rightarrow>
        let st1 = (if save_txt a
                   then st\<lparr> files := append_file (files st) (txt_path @ ''.txt'')
                                        (label_line L cls_name xyxy) \<rparr>
                   else st)
        in if save_img a \<or> view_img a then
             (case py_index (names a) cls_name of
                Inl e \<Rightarrow> (Inl e, st1)
              | Inr nm \<Rightarrow>
                  (case py_index (colors a) cls_name of
                     Inl e \<Rightarrow> (Inl e, st1)
                   | Inr col \<Rightarrow>
                       (Inr (), st1\<lparr> img := plot_one_box xyxy (img st1)
                                         (nm @ '' '' @ fmt_2f L conf) col 3 \<rparr>)))
           else (Inr (), st1))"

fun write_results :: "lib \<Rightarrow> args \<Rightarrow> string \<Rightarrow> (box \<times> rat \<times> int) list \<Rightarrow> state \<Rightarrow> (py_error + unit) \<times> state" where
  "write_results L a txt_path [] st = (Inr (), st)"
| "write_results L a txt_path (det # dets) st =
     (case write_one L a txt_path det st of
        (Inl e, st1) \<Rightarrow> (Inl e, st1)
      | (Inr u, st1) \<Rightarrow> write_results L a txt_path dets st1)"

text \<open>
  The local variables \<open>boxes\<close>, \<open>scores\<close>, \<open>labels\<close> are bound only inside the branch of
  line 36; \<open>None\<close> below means they are still unbound.
\<close>

type_synonym bound_locals = "(box list \<times> rat list \<times> int list) option"

text \<open>Lines 38-55: the branch taken when \<open>pred\<close> is not \<open>None\<close> and \<open>len(pred) > 0\<close>.\<close>

definition detections_branch :: "lib \<Rightarrow> args \<Rightarrow> string \<Rightarrow> detection_set \<Rightarrow> string \<Rightarrow> state \<Rightarrow> (py_error + string \<times> bound_locals) \<times> state" where
  "detections_branch L a txt_path d s st =
     (let bx = map round_box (boxes d); sc = scores d; lb = labels d in
      case class_summary L (names a) lb (torch_unique lb) s of
        Inl e \<Rightarrow> (Inl e, st)
      | Inr s' \<Rightarrow>
          (case write_results L a txt_path (zip bx (zip sc lb)) st of
             (Inl e, st1) \<Rightarrow> (Inl e, st1)
           | (Inr u, st1) \<Rightarrow> (Inr (s', Some (bx, sc, lb)), st1)))"

text \<open>Lines 31 and 34: the head of the print string.\<close>

definition print_head :: "lib \<Rightarrow> args \<Rightarrow> nat \<Rightarrow> image \<Rightarrow> string" where
  "print_head L a i im =
     (if webcam a then fmt_g L (of_nat i) @ '': '' else []) @
     fmt_g L (of_nat (fst (shape2 im))) @ ''x'' @ fmt_g L (of_nat (snd (shape2 im))) @ '' ''"

text \<open>
  Lines 58-62: the inference time is printed, then the frame is written to
  \<open>save_path\<close> (line 32) when \<open>save_img\<close> is set and the mode is \<open>images\<close>.
\<close>

definition report_and_save :: "lib \<Rightarrow> args \<Rightarrow> string \<Rightarrow> rat \<Rightarrow> string \<Rightarrow> state \<Rightarrow> state" where
  "report_and_save L a path time_consume s st =
     (let save_path = joinpath (Path (output_dir a)) (path_name (Path path));
          st1 = st\<lparr> console := console st @ [s @ ''Done. ('' @ fmt_3f L time_consume @ ''s)''] \<rparr>
      in if save_img a \<and> mode a = ''images''
         then st1\<lparr> files := (files st1)(path_str save_path \<mapsto> imencode L (img st1)) \<rparr>
         else st1)"

text \<open>Lines 31-62: one iteration of the loop over \<open>enumerate(detections)\<close>.\<close>

definition loop_body :: "lib \<Rightarrow> args \<Rightarrow> string \<Rightarrow> rat \<Rightarrow> nat \<Rightarrow> pred \<Rightarrow> bound_locals \<Rightarrow> state \<Rightarrow> (py_error + bound_locals) \<times> state" where
  "loop_body L a path time_consume i p loc st =
     (let txt_path = joinpath (Path (output_dir a)) (path_stem (Path path));
          s = print_head L a i (img st)
      in case (case p of
                 None \<Rightarrow> (Inr (s, loc), st)
               | Some d \<Rightarrow>
                   if 0 < pred_len d then detections_branch L a (path_str txt_path) d s st
                   else (Inr (s, loc), st)) of
           (Inl e, st1) \<Rightarrow> (Inl e, st1)
         | (Inr (s', loc'), st1) \<Rightarrow> (Inr loc', report_and_save L a path time_consume s' st1))"

fun overlay_loop :: "lib \<Rightarrow> args \<Rightarrow> string \<Rightarrow> rat \<Rightarrow> nat \<Rightarrow> pred list \<Rightarrow> bound_locals \<Rightarrow> state \<Rightarrow> (py_error + bound_locals) \<times> state" where
  "overlay_loop L a path time_consume i [] loc st = (Inr loc, st)"
| "overlay_loop L a path time_consume i (p # ps) loc st =
     (case loop_body L a path time_consume i p loc st of
        (Inl e, st1) \<Rightarrow> (Inl e, st1)
      | (Inr loc', st1) \<Rightarrow> overlay_loop L a path time_consume (Suc i) ps loc' st1)"

text \<open>
  \<open>overlay_boxes(detections, path, img, time_consume, args)\<close>. The frame \<open>img\<close> is the
  field of that name of the state. Line 64 reads the three locals and fails when no
  iteration bound them.
\<close>

definition overlay_boxes :: "lib \<Rightarrow> pred list \<Rightarrow> string \<Rightarrow> rat \<Rightarrow> args \<Rightarrow> state \<Rightarrow> (py_error + box list \<times> rat list \<times> int list) \<times> state" where
  "overlay_boxes L detections path time_consume a st =
     (case overlay_loop L a path time_consume 0 detections None st of
        (Inl e, st1) \<Rightarrow> (Inl e, st1)
      | (Inr None, st1) \<Rightarrow> (Inl UnboundLocalError, st1)
      | (Inr (Some r), st1) \<Rightarrow> (Inr r, st1))"

subsection \<open>main\<close>

text \<open>
  Lines 68-92 of \<open>main\<close> build the device, the model and the frame source from
  libraries; they are taken to have succeeded and to yield the sequence of frames
  \<open>dataset\<close>. The embedding starts at the names and colours (lines 95-96).
\<close>

text \<open>
  Line 96: three draws of \<open>random.randint(0, 255)\<close> per class name, in order;
  \<open>rnd k\<close> is the entropy behind the \<open>k\<close>-th draw.
\<close>

definition build_colors :: "(nat \<Rightarrow> nat) \<Rightarrow> nat \<Rightarrow> nat list list" where
  "build_colors rnd n = map (\<lambda>i. map (\<lambda>j. rnd (3 * i + j) mod 255) [0..<3]) [0..<n]"

record frame =
  fr_path :: string
  fr_img :: image
  fr_im0s :: image

text \<open>The names bound at module level once detect.py has been executed as a script.\<close>

definition detect_globals :: "string list" where
  "detect_globals =
     [''__name__'', ''__doc__'', ''__package__'', ''__loader__'', ''__spec__'',
      ''__file__'', ''__builtins__'',
      ''time'', ''Path'', ''random'', ''cv2'', ''torch'', ''LoadImages'',
      ''check_img_size'', ''box_xyxy_to_cxcywh'', ''plot_one_box'', ''set_logging'',
      ''yolov5'', ''get_coco_names'', ''overlay_boxes'', ''main'',
      ''argparse'', ''parser'', ''args'']"

text \<open>
  The functions and constants of the \<open>builtins\<close> module. Its exception and warning
  classes are left out; their names are capitalised.
\<close>

definition py_builtins :: "string list" where
  "py_builtins =
     [''abs'', ''all'', ''any'', ''ascii'', ''bin'', ''bool'', ''breakpoint'',
      ''bytearray'', ''bytes'', ''callable'', ''chr'', ''classmethod'', ''compile'',
      ''complex'', ''delattr'', ''dict'', ''dir'', ''divmod'', ''enumerate'', ''eval'',
      ''exec'', ''filter'', ''float'', ''format'', ''frozenset'', ''getattr'',
      ''globals'', ''hasattr'', ''hash'', ''help'', ''hex'', ''id'', ''input'', ''int'',
      ''isinstance'', ''issubclass'', ''iter'', ''len'', ''list'', ''locals'', ''map'',
      ''max'', ''memoryview'', ''min'', ''next'', ''object'', ''oct'', ''open'', ''ord'',
      ''pow'', ''print'', ''property'', ''range'', ''repr'', ''reversed'', ''round'',
      ''set'', ''setattr'', ''slice'', ''sorted'', ''staticmethod'', ''str'', ''sum'',
      ''super'', ''tuple'', ''type'', ''vars'', ''zip'', ''__import__'',
      ''True'', ''False'', ''None'', ''Ellipsis'', ''NotImplemented'', ''__debug__'',
      ''copyright'', ''credits'', ''license'', ''exit'', ''quit'']"

text \<open>
  A name that a function reads and never assigns is looked up among the module's
  globals, then among the builtins.
\<close>

definition load_global :: "string list \<Rightarrow> string \<Rightarrow> py_error + unit" where
  "load_global G nm = (if nm \<in> set G \<or> nm \<in> set py_builtins then Inr () else Inl NameError)"

text \<open>Line 28: the parameters of \<open>overlay_boxes\<close>, all positional and without defaults.\<close>

definition overlay_boxes_params :: "string list" where
  "overlay_boxes_params = [''detections'', ''path'', ''img'', ''time_consume'', ''args'']"

datatype pyval = VPreds "pred list" | VStr string | VImg image | VNum rat | VArgs args

fun as_preds :: "pyval \<Rightarrow> pred list option" where
  "as_preds (VPreds ds) = Some ds"
| "as_preds _ = None"

fun as_str :: "pyval \<Rightarrow> string option" where
  "as_str (VStr s) = Some s"
| "as_str _ = None"

fun as_img :: "pyval \<Rightarrow> image option" where
  "as_img (VImg i) = Some i"
| "as_img _ = None"

fun as_num :: "pyval \<Rightarrow> rat option" where
  "as_num (VNum r) = Some r"
| "as_num _ = None"

fun as_args :: "pyval \<Rightarrow> args option" where
  "as_args (VArgs a) = Some a"
| "as_args _ = None"

text \<open>
  A call of \<open>overlay_boxes\<close> with positional arguments: the call fails unless there is
  one argument per parameter. An argument of the wrong kind fails in the body; that
  failure is reported as a \<open>TypeError\<close> too.
\<close>

definition call_overlay_boxes :: "lib \<Rightarrow> pyval list \<Rightarrow> state \<Rightarrow> (py_error + box list \<times> rat list \<times> int list) \<times> state" where
  "call_overlay_boxes L vs st =
     (if length vs \<noteq> length overlay_boxes_params then (Inl TypeError, st)
      else (case (as_preds (vs ! 0), as_str (vs ! 1), as_img (vs ! 2), as_num (vs ! 3),
                  as_args (vs ! 4)) of
              (Some ds, Some p, Some i, Some t, Some ar) \<Rightarrow>
                 overlay_boxes L ds p t ar (st\<lparr> img := i \<rparr>)
            | _ \<Rightarrow> (Inl TypeError, st)))"

text \<open>
  Lines 104-108: the body of the loop over the frame source. \<open>G\<close> is the list of names
  bound at module level and \<open>inference\<close> what a binding of that name would compute.
  The conversion of line 104 is a library call and taken to succeed.
\<close>

definition main_step :: "lib \<Rightarrow> string list \<Rightarrow> (image \<Rightarrow> pred list \<times> rat) \<Rightarrow> args \<Rightarrow> frame \<Rightarrow> state \<Rightarrow> (py_error + unit) \<times> state" where
  "main_step L G inference a fr st =
     (case load_global G ''inference'' of
        Inl e \<Rightarrow> (Inl e, st)
      | Inr u \<Rightarrow>
          (case inference (fr_img fr) of (model_out, time_consume) \<Rightarrow>
             (case call_overlay_boxes L
                     [VPreds model_out, VStr (fr_path fr), VImg (fr_img fr),
                      VImg (fr_im0s fr), VNum time_consume, VArgs a] st of
                (Inl e, st1) \<Rightarrow> (Inl e, st1)
              | (Inr r, st1) \<Rightarrow> (Inr (), st1))))"

fun main_loop :: "lib \<Rightarrow> string list \<Rightarrow> (image \<Rightarrow> pred list \<times> rat) \<Rightarrow> args \<Rightarrow> frame list \<Rightarrow> state \<Rightarrow> (py_error + unit) \<times> state" where
  "main_loop L G inference a [] st = (Inr (), st)"
| "main_loop L G inference a (fr # frs) st =
     (case main_step L G inference a fr st of
        (Inl e, st1) \<Rightarrow> (Inl e, st1)
      | (Inr u, st1) \<Rightarrow> main_loop L G inference a frs st1)"

text \<open>Lines 95-96: the class names and one colour per name are stored in \<open>args\<close>.\<close>

definition names_and_colors :: "args \<Rightarrow> string list \<Rightarrow> (nat \<Rightarrow> nat) \<Rightarrow> args" where
  "names_and_colors a0 file_lines rnd =
     (let nms = get_coco_names file_lines
      in a0\<lparr> names := nms, colors := build_colors rnd (length nms) \<rparr>)"

text \<open>
  \<open>main\<close> from line 95 on. \<open>file_lines\<close> are the lines of the class-name file,
  \<open>elapsed\<close> the wall-clock time of the run.
\<close>

definition main :: "lib \<Rightarrow> string list \<Rightarrow> (image \<Rightarrow> pred list \<times> rat) \<Rightarrow> args \<Rightarrow> string list \<Rightarrow> (nat \<Rightarrow> nat) \<Rightarrow> rat \<Rightarrow> frame list \<Rightarrow> state \<Rightarrow> (py_error + unit) \<times> state" where
  "main L G inference a0 file_lines rnd elapsed dataset st =
     (let a = names_and_colors a0 file_lines rnd
      in case main_loop L G inference a dataset st of
           (Inl e, st1) \<Rightarrow> (Inl e, st1)
         | (Inr u, st1) \<Rightarrow>
             let st2 = (if save_txt a \<or> save_img a
                        then st1\<lparr> console := console st1 @
                                     [''Results saved to '' @ output_dir a] \<rparr>
                        else st1)
             in (Inr (), st2\<lparr> console := console st2 @
                                [''Done. ('' @ fmt_3f L elapsed @ ''s)''] \<rparr>))"

subsection \<open>A concrete library for evaluation\<close>

text \<open>Decimal digits of a natural number.\<close>

function dec :: "nat \<Rightarrow> string" where
  "dec n = (if n < 10 then [''0123456789'' ! n] else dec (n div 10) @ [''0123456789'' ! (n mod 10)])"
  by pat_completeness auto
termination
  by (relation "measure (\<lambda>n. n)") auto

declare dec.simps [simp del]

definition pad_zeros :: "nat \<Rightarrow> string \<Rightarrow> string" where
  "pad_zeros k s = replicate (k - length s) (CHR ''0'') @ s"

text \<open>
  \<open>'%.kf'\<close> on an exact value: rounded to \<open>k\<close> decimals, halves to even.
\<close>

definition fmt_fixed :: "nat \<Rightarrow> rat \<Rightarrow> string" where
  "fmt_fixed k r =
     (let m = nat \<lfloor>torch_round (\<bar>r\<bar> * 10 ^ k)\<rfloor> in
      (if r < 0 then ''-'' else []) @ dec (m div 10 ^ k) @
      (if k = 0 then [] else ''.'' @ pad_zeros k (dec (m mod 10 ^ k))))"

text \<open>
  \<open>'%g'\<close> prints a whole number below \<open>10^6\<close> as its digits. Other values are given
  six decimals here, which is not what \<open>'%g'\<close> prints; the examples use whole numbers.
\<close>

definition fmt_general :: "rat \<Rightarrow> string" where
  "fmt_general r =
     (if r = of_int \<lfloor>r\<rfloor> \<and> \<bar>r\<bar> < 10 ^ 6
      then (if r < 0 then ''-'' else []) @ dec (nat \<bar>\<lfloor>r\<rfloor>\<bar>)
      else fmt_fixed 6 r)"

text \<open>
  A box conversion that takes the box alone, as the call of line 49 does: centre,
  width and height in the units of the box.
\<close>

definition cxcywh_of :: "box \<Rightarrow> box" where
  "cxcywh_of b = (case b of (x0, y0, x1, y1) \<Rightarrow> ((x0 + x1) / 2, (y0 + y1) / 2, x1 - x0, y1 - y0))"

definition demo_lib :: lib where
  "demo_lib = \<lparr> fmt_g = fmt_general, fmt_2f = fmt_fixed 2, fmt_3f = fmt_fixed 3,
                box_xyxy_to_cxcywh = cxcywh_of,
                imencode = (\<lambda>im. ''IMG'' @ dec (length (drawn im))) \<rparr>"

definition demo_args :: args where
  "demo_args = \<lparr> output_dir = ''out'', webcam = False, save_txt = False, save_img = False,
                 view_img = False, mode = ''images'',
                 names = [''person'', ''bicycle'', ''car'', ''motorcycle'', ''airplane'', ''bus''],
                 colors = [[1, 2, 3], [4, 5, 6], [7, 8, 9], [10, 11, 12], [13, 14, 15], [16, 17, 18]] \<rparr>"

definition demo_img :: image where
  "demo_img = \<lparr> shape2 = (400, 200), pixels = [], drawn = [] \<rparr>"

definition demo_state :: state where
  "demo_state = \<lparr> console = [], files = Map.empty, img = demo_img, shown = [] \<rparr>"

section \<open>Notions used in the statements\<close>

text \<open>An index that a Python list of this length accepts, and the element it selects.\<close>

definition valid_index :: "'a list \<Rightarrow> int \<Rightarrow> bool" where
  "valid_index xs i = (- int (length xs) \<le> i \<and> i < int (length xs))"

definition py_get :: "'a list \<Rightarrow> int \<Rightarrow> 'a" where
  "py_get xs i = (if 0 \<le> i then xs ! nat i else xs ! nat (int (length xs) + i))"

text \<open>The piece of the summary for one class label.\<close>

definition summary_entry :: "lib \<Rightarrow> string list \<Rightarrow> int list \<Rightarrow> int \<Rightarrow> string" where
  "summary_entry L nms lbls c =
     fmt_g L (of_nat (count_list lbls c)) @ '' '' @ py_get nms c @ ''s, ''"

text \<open>The detections of one dictionary, as the loop of line 46 meets them.\<close>

definition det_list :: "detection_set \<Rightarrow> (box \<times> rat \<times> int) list" where
  "det_list d = zip (map round_box (boxes d)) (zip (scores d) (labels d))"

definition pred_dets :: "pred \<Rightarrow> (box \<times> rat \<times> int) list" where
  "pred_dets p = (case p of None \<Rightarrow> [] | Some d \<Rightarrow> det_list d)"

definition frame_dets :: "pred list \<Rightarrow> (box \<times> rat \<times> int) list" where
  "frame_dets ps = concat (map pred_dets ps)"

definition det_line :: "lib \<Rightarrow> box \<times> rat \<times> int \<Rightarrow> string" where
  "det_line L det = (case det of (xyxy, conf, cls_name) \<Rightarrow> label_line L cls_name xyxy)"

definition frame_lines :: "lib \<Rightarrow> pred list \<Rightarrow> string" where
  "frame_lines L ps = concat (map (det_line L) (frame_dets ps))"

definition overlay_of :: "lib \<Rightarrow> args \<Rightarrow> box \<times> rat \<times> int \<Rightarrow> overlay" where
  "overlay_of L a det = (case det of (xyxy, conf, cls_name) \<Rightarrow>
     \<lparr> ov_box = xyxy, ov_label = py_get (names a) cls_name @ '' '' @ fmt_2f L conf,
       ov_color = py_get (colors a) cls_name, ov_thickness = 3 \<rparr>)"

text \<open>Every label of the dictionary indexes the name table and the palette.\<close>

definition labels_ok :: "args \<Rightarrow> detection_set \<Rightarrow> bool" where
  "labels_ok a d = (\<forall>l \<in> set (labels d). valid_index (names a) l \<and> valid_index (colors a) l)"

definition pred_ok :: "args \<Rightarrow> pred \<Rightarrow> bool" where
  "pred_ok a p = (case p of None \<Rightarrow> True | Some d \<Rightarrow> labels_ok a d)"

text \<open>The two files a frame can reach: \<open>f'{txt_path}.txt'\<close> and \<open>str(save_path)\<close>.\<close>

definition txt_file :: "args \<Rightarrow> string \<Rightarrow> string" where
  "txt_file a path = path_str (joinpath (Path (output_dir a)) (path_stem (Path path))) @ ''.txt''"

definition img_file :: "args \<Rightarrow> string \<Rightarrow> string" where
  "img_file a path = path_str (joinpath (Path (output_dir a)) (path_name (Path path)))"

text \<open>
  The label file and the image file of a frame coincide when the source file is itself
  named \<open>*.txt\<close>; \<open>no_collision\<close> excludes that the image step overwrites the labels.
\<close>

definition no_collision :: "args \<Rightarrow> string \<Rightarrow> bool" where
  "no_collision a path =
     (\<not> (save_img a \<and> mode a = ''images'') \<or> img_file a path \<noteq> txt_file a path)"

definition file_text :: "(string \<rightharpoonup> string) \<Rightarrow> string \<Rightarrow> string" where
  "file_text fs p = (case fs p of None \<Rightarrow> [] | Some s \<Rightarrow> s)"

text \<open>The state after one iteration that raised nothing, written out.\<close>

definition txt_fold :: "lib \<Rightarrow> args \<Rightarrow> string \<Rightarrow> (box \<times> rat \<times> int) list \<Rightarrow> (string \<rightharpoonup> string) \<Rightarrow> (string \<rightharpoonup> string)" where
  "txt_fold L a tp dets fs =
     (if save_txt a
      then fold (\<lambda>det fs. append_file fs (tp @ ''.txt'') (det_line L det)) dets fs
      else fs)"

definition annotate :: "lib \<Rightarrow> args \<Rightarrow> (box \<times> rat \<times> int) list \<Rightarrow> image \<Rightarrow> image" where
  "annotate L a dets im =
     (if save_img a \<or> view_img a
      then im\<lparr> drawn := drawn im @ map (overlay_of L a) dets \<rparr> else im)"

definition pred_locals :: "pred \<Rightarrow> bound_locals \<Rightarrow> bound_locals" where
  "pred_locals p loc =
     (case p of None \<Rightarrow> loc | Some d \<Rightarrow> Some (map round_box (boxes d), scores d, labels d))"

definition pred_summary :: "lib \<Rightarrow> args \<Rightarrow> pred \<Rightarrow> string" where
  "pred_summary L a p =
     (case p of None \<Rightarrow> []
      | Some d \<Rightarrow> concat (map (summary_entry L (names a) (labels d)) (torch_unique (labels d))))"

definition pred_state :: "lib \<Rightarrow> args \<Rightarrow> string \<Rightarrow> rat \<Rightarrow> nat \<Rightarrow> pred \<Rightarrow> state \<Rightarrow> state" where
  "pred_state L a path time_consume i p st =
     report_and_save L a path time_consume (print_head L a i (img st) @ pred_summary L a p)
       \<lparr> console = console st,
         files = txt_fold L a (path_str (joinpath (Path (output_dir a)) (path_stem (Path path))))
                   (pred_dets p) (files st),
         img = annotate L a (pred_dets p) (img st),
         shown = shown st \<rparr>"

subsection \<open>The specification's wording, for comparison\<close>

text \<open>
  The Coordinate Normalizer as the specification states it: the box and the frame's
  width and height give the centre and the size, relative to the frame.
\<close>

definition spec_normalize :: "box \<Rightarrow> rat \<Rightarrow> rat \<Rightarrow> box" where
  "spec_normalize b W H = (case b of (xmin, ymin, xmax, ymax) \<Rightarrow>
     ((xmin + xmax) / 2 / W, (ymin + ymax) / 2 / H, (xmax - xmin) / W, (ymax - ymin) / H))"

text \<open>The distinct labels in the order in which they are first met.\<close>

definition spec_first_seen :: "int list \<Rightarrow> int list" where
  "spec_first_seen xs = rev (remdups (rev xs))"

subsection \<open>Inputs for evaluation\<close>

definition demo_det :: detection_set where
  "demo_det = \<lparr> boxes = [(10, 20, 110, 220)], scores = [9 / 10], labels = [2] \<rparr>"

definition demo_pair :: detection_set where
  "demo_pair = \<lparr> boxes = [(10, 20, 110, 220), (1, 2, 3, 4)], scores = [9 / 10, 1 / 2],
                 labels = [5, 2] \<rparr>"

definition demo_frame :: frame where
  "demo_frame = \<lparr> fr_path = ''zidane.jpg'', fr_img = demo_img, fr_im0s = demo_img \<rparr>"

section \<open>Properties\<close>

subsection \<open>Indexing and the class summary\<close>

lemma py_index_valid: "valid_index xs i \<Longrightarrow> py_index xs i = Inr (py_get xs i)"
  by (auto simp: valid_index_def py_index_def py_get_def Let_def)

lemma py_index_invalid: "\<not> valid_index xs i \<Longrightarrow> py_index xs i = Inl IndexError"
  by (auto simp: valid_index_def py_index_def Let_def)

lemma eq_sum_count: "eq_sum xs c = count_list xs c"
  by (induction xs) (auto simp: eq_sum_def)

lemma set_torch_unique: "set (torch_unique xs) = set xs"
  by (simp add: torch_unique_def)

lemma class_summary_valid:
  "\<forall>c \<in> set cs. valid_index nms c \<Longrightarrow>
   class_summary L nms lbls cs s = Inr (s @ concat (map (summary_entry L nms lbls) cs))"
  by (induction cs arbitrary: s) (simp_all add: py_index_valid summary_entry_def eq_sum_count)

lemma class_summary_invalid:
  "c \<in> set cs \<Longrightarrow> \<not> valid_index nms c \<Longrightarrow> class_summary L nms lbls cs s = Inl IndexError"
proof (induction cs arbitrary: s)
  case Nil
  then show ?case by simp
next
  case (Cons x xs)
  show ?case
  proof (cases "valid_index nms x")
    case True
    with Cons show ?thesis by (auto simp: py_index_valid)
  next
    case False
    then show ?thesis by (simp add: py_index_invalid)
  qed
qed

subsection \<open>The write loop when every label is a valid index\<close>

lemma write_one_valid:
  "valid_index (names a) (snd (snd det)) \<Longrightarrow> valid_index (colors a) (snd (snd det)) \<Longrightarrow>
   write_one L a tp det st =
     (Inr (), \<lparr> console = console st,
                files = (if save_txt a then append_file (files st) (tp @ ''.txt'') (det_line L det)
                         else files st),
                img = (if save_img a \<or> view_img a
                       then (img st)\<lparr> drawn := drawn (img st) @ [overlay_of L a det] \<rparr>
                       else img st),
                shown = shown st \<rparr>)"
  by (cases det)
     (auto simp: write_one_def py_index_valid det_line_def overlay_of_def plot_one_box_def Let_def)

lemma write_results_valid:
  "\<forall>det \<in> set dets. valid_index (names a) (snd (snd det)) \<and>
                      valid_index (colors a) (snd (snd det)) \<Longrightarrow>
   write_results L a tp dets st =
     (Inr (), \<lparr> console = console st, files = txt_fold L a tp dets (files st),
                img = annotate L a dets (img st), shown = shown st \<rparr>)"
proof (induction dets arbitrary: st)
  case Nil
  then show ?case by (simp add: txt_fold_def annotate_def)
next
  case (Cons det dets)
  then show ?case
    by (simp add: write_one_valid txt_fold_def annotate_def)
qed

lemma labels_ok_dets:
  "labels_ok a d \<Longrightarrow>
   \<forall>det \<in> set (zip (map round_box (boxes d)) (zip (scores d) (labels d))).
      valid_index (names a) (snd (snd det)) \<and> valid_index (colors a) (snd (snd det))"
  by (auto simp: labels_ok_def dest!: set_zip_rightD)

lemma state_eta:
  "\<lparr> console = console st, files = files st, img = img st, shown = shown st \<rparr> = (st :: state)"
  by (cases st) simp

lemma loop_body_valid:
  assumes "pred_ok a p"
  shows "loop_body L a path time_consume i p loc st =
           (Inr (pred_locals p loc), pred_state L a path time_consume i p st)"
proof (cases p)
  case None
  then show ?thesis
    by (simp add: loop_body_def pred_state_def pred_locals_def pred_dets_def
        pred_summary_def txt_fold_def annotate_def Let_def state_eta)
next
  case (Some d)
  with assms have ok: "labels_ok a d" by (simp add: pred_ok_def)
  then have sm: "class_summary L (names a) (labels d) (torch_unique (labels d)) s =
      Inr (s @ concat (map (summary_entry L (names a) (labels d)) (torch_unique (labels d))))" for s
    by (intro class_summary_valid) (simp add: set_torch_unique labels_ok_def)
  note wr = write_results_valid [OF labels_ok_dets [OF ok]]
  show ?thesis
    unfolding loop_body_def detections_branch_def
    by (simp add: Some pred_len_def sm wr Let_def pred_state_def pred_locals_def pred_dets_def
        det_list_def pred_summary_def)
qed

lemma snd_overlay_boxes:
  "snd (overlay_boxes L ds path tc a st) = snd (overlay_loop L a path tc 0 ds None st)"
  by (simp add: overlay_boxes_def split: prod.splits sum.splits option.splits)

lemma overlay_loop_fst:
  "\<forall>p \<in> set ps. pred_ok a p \<Longrightarrow>
   fst (overlay_loop L a path tc i ps loc st) = Inr (fold pred_locals ps loc)"
  by (induction ps arbitrary: i loc st) (simp_all add: loop_body_valid)

text \<open>
  With valid labels a call returns normally exactly when some entry of \<open>detections\<close>
  is a dictionary; otherwise the return of line 64 finds its variables unbound.
\<close>

lemma overlay_boxes_result:
  "\<forall>p \<in> set ds. pred_ok a p \<Longrightarrow>
   fst (overlay_boxes L ds path tc a st) =
     (case fold pred_locals ds None of None \<Rightarrow> Inl UnboundLocalError | Some r \<Rightarrow> Inr r)"
  using overlay_loop_fst [of ds a L path tc 0 None st]
  by (cases "overlay_loop L a path tc 0 ds None st")
     (auto simp: overlay_boxes_def split: option.splits)

subsection \<open>The frame after a run\<close>

lemma annotate_annotate:
  "annotate L a ds2 (annotate L a ds1 im) = annotate L a (ds1 @ ds2) im"
  by (simp add: annotate_def)

lemma annotate_Nil: "annotate L a [] im = im"
  by (simp add: annotate_def)

lemma img_report_and_save: "img (report_and_save L a path tc s st) = img st"
  by (simp add: report_and_save_def Let_def)

lemma img_pred_state: "img (pred_state L a path tc i p st) = annotate L a (pred_dets p) (img st)"
  by (simp add: pred_state_def img_report_and_save)

lemma overlay_loop_img:
  "\<forall>p \<in> set ps. pred_ok a p \<Longrightarrow>
   img (snd (overlay_loop L a path tc i ps loc st)) = annotate L a (frame_dets ps) (img st)"
proof (induction ps arbitrary: i loc st)
  case Nil
  then show ?case by (simp add: frame_dets_def annotate_Nil)
next
  case (Cons p ps)
  then show ?case
    by (simp add: loop_body_valid img_pred_state annotate_annotate frame_dets_def)
qed

subsection \<open>The label file after a run\<close>

lemma file_text_append: "file_text (append_file fs p s) p = file_text fs p @ s"
  by (simp add: file_text_def append_file_def)

lemma file_text_fold:
  "file_text (fold (\<lambda>det fs. append_file fs p (g det)) dets fs) p =
   file_text fs p @ concat (map g dets)"
  by (induction dets arbitrary: fs) (simp_all add: file_text_append)

lemma file_text_upd_other: "q \<noteq> p \<Longrightarrow> file_text (fs(q \<mapsto> v)) p = file_text fs p"
  by (simp add: file_text_def)

lemma txt_pred_state:
  "no_collision a path \<Longrightarrow>
   file_text (files (pred_state L a path tc i p st)) (txt_file a path) =
   file_text (files st) (txt_file a path) @
     (if save_txt a then concat (map (det_line L) (pred_dets p)) else [])"
  by (auto simp: pred_state_def report_and_save_def Let_def no_collision_def txt_fold_def
      txt_file_def img_file_def file_text_fold file_text_upd_other)

lemma overlay_loop_txt:
  "\<forall>p \<in> set ps. pred_ok a p \<Longrightarrow> no_collision a path \<Longrightarrow>
   file_text (files (snd (overlay_loop L a path tc i ps loc st))) (txt_file a path) =
   file_text (files st) (txt_file a path) @ (if save_txt a then frame_lines L ps else [])"
proof (induction ps arbitrary: i loc st)
  case Nil
  then show ?case by (simp add: frame_lines_def frame_dets_def)
next
  case (Cons p ps)
  then show ?case
    by (simp add: loop_body_valid txt_pred_state frame_lines_def frame_dets_def)
qed

subsection \<open>The image file after a run\<close>



subsection \<open>What no run touches\<close>

lemma loop_body_Some:
  "loop_body L a path tc i (Some d) loc st =
     (case detections_branch L a
             (path_str (joinpath (Path (output_dir a)) (path_stem (Path path)))) d
             (print_head L a i (img st)) st of
        (Inl e, st1) \<Rightarrow> (Inl e, st1)
      | (Inr (s', loc'), st1) \<Rightarrow> (Inr loc', report_and_save L a path tc s' st1))"
  by (simp add: loop_body_def pred_len_def Let_def)

lemma loop_body_None:
  "loop_body L a path tc i None loc st =
     (Inr loc, report_and_save L a path tc (print_head L a i (img st)) st)"
  by (simp add: loop_body_def Let_def)







lemma load_global_inference: "load_global detect_globals ''inference'' = Inl NameError"
  by (simp add: load_global_def detect_globals_def py_builtins_def)

lemma call_overlay_boxes_six:
  "call_overlay_boxes L [v1, v2, v3, v4, v5, v6] st = (Inl TypeError, st)"
  by (simp add: call_overlay_boxes_def overlay_boxes_params_def)

lemma main_step_fails:
  "main_step L G inference a fr st = (Inl NameError, st) \<or>
   main_step L G inference a fr st = (Inl TypeError, st)"
  by (cases "load_global G ''inference''")
     (auto simp: main_step_def load_global_def call_overlay_boxes_six
           split: prod.splits if_splits)


text \<open>A run changes no file but the frame's label file and, in images mode, its image file.\<close>

lemma files_write_one:
  "p \<noteq> tp @ ''.txt'' \<Longrightarrow> files (snd (write_one L a tp det st)) p = files st p"
  by (cases det) (simp add: write_one_def Let_def append_file_def split: sum.splits)

lemma files_write_results:
  "p \<noteq> tp @ ''.txt'' \<Longrightarrow> files (snd (write_results L a tp dets st)) p = files st p"
proof (induction dets arbitrary: st)
  case Nil
  then show ?case by simp
next
  case (Cons det dets)
  from Cons.prems have "files (snd (write_one L a tp det st)) p = files st p"
    by (rule files_write_one)
  with Cons show ?case
    by (cases "write_one L a tp det st") (auto split: sum.splits)
qed

lemma files_detections_branch:
  "p \<noteq> tp @ ''.txt'' \<Longrightarrow> files (snd (detections_branch L a tp d s st)) p = files st p"
  using files_write_results
    [of p tp L a "zip (map round_box (boxes d)) (zip (scores d) (labels d))" st]
  by (auto simp: detections_branch_def Let_def split: sum.splits prod.splits)

lemma files_report_and_save:
  "\<not> (save_img a \<and> mode a = ''images'' \<and> p = img_file a path) \<Longrightarrow>
   files (report_and_save L a path tc s st) p = files st p"
  by (auto simp: report_and_save_def img_file_def Let_def)

lemma files_loop_body:
  assumes "p \<noteq> txt_file a path"
    and "\<not> (save_img a \<and> mode a = ''images'' \<and> p = img_file a path)"
  shows "files (snd (loop_body L a path tc i q loc st)) p = files st p"
proof (cases q)
  case None
  with assms(2) show ?thesis by (simp add: loop_body_None files_report_and_save)
next
  case (Some d)
  obtain r st1 where r: "detections_branch L a
      (path_str (joinpath (Path (output_dir a)) (path_stem (Path path)))) d
      (print_head L a i (img st)) st = (r, st1)"
    by (cases "detections_branch L a
      (path_str (joinpath (Path (output_dir a)) (path_stem (Path path)))) d
      (print_head L a i (img st)) st")
  from assms(1) have "files (snd (detections_branch L a
      (path_str (joinpath (Path (output_dir a)) (path_stem (Path path)))) d
      (print_head L a i (img st)) st)) p = files st p"
    by (intro files_detections_branch) (simp add: txt_file_def)
  with r have "files st1 p = files st p" by simp
  with assms(2) show ?thesis
    by (cases r) (auto simp: Some loop_body_Some r files_report_and_save)
qed

lemma files_overlay_loop:
  assumes "p \<noteq> txt_file a path"
    and "\<not> (save_img a \<and> mode a = ''images'' \<and> p = img_file a path)"
  shows "files (snd (overlay_loop L a path tc i ps loc st)) p = files st p"
proof (induction ps arbitrary: i loc st)
  case Nil
  then show ?case by simp
next
  case (Cons q ps)
  from assms have "files (snd (loop_body L a path tc i q loc st)) p = files st p"
    by (rule files_loop_body)
  with Cons show ?case
    by (cases "loop_body L a path tc i q loc st") (auto split: sum.splits)
qed

text \<open>Without \<open>save_txt\<close> the label file is not touched either.\<close>

lemma files_write_results_no_txt:
  "\<not> save_txt a \<Longrightarrow> files (snd (write_results L a tp dets st)) = files st"
proof (induction dets arbitrary: st)
  case Nil
  then show ?case by simp
next
  case (Cons det dets)
  from Cons.prems have "files (snd (write_one L a tp det st)) = files st"
    by (cases det) (simp add: write_one_def Let_def split: sum.splits)
  with Cons show ?case
    by (cases "write_one L a tp det st") (auto split: sum.splits)
qed

lemma files_loop_body_no_txt:
  assumes "\<not> save_txt a" and "\<not> (save_img a \<and> mode a = ''images'')"
  shows "files (snd (loop_body L a path tc i q loc st)) = files st"
proof (cases q)
  case None
  with assms(2) show ?thesis by (auto simp: loop_body_None report_and_save_def Let_def)
next
  case (Some d)
  obtain r st1 where r: "detections_branch L a
      (path_str (joinpath (Path (output_dir a)) (path_stem (Path path)))) d
      (print_head L a i (img st)) st = (r, st1)"
    by (cases "detections_branch L a
      (path_str (joinpath (Path (output_dir a)) (path_stem (Path path)))) d
      (print_head L a i (img st)) st")
  have "files (snd (detections_branch L a tp d s st)) = files st" for tp s
    using files_write_results_no_txt
      [OF assms(1), of L tp "zip (map round_box (boxes d)) (zip (scores d) (labels d))" st]
    by (auto simp: detections_branch_def Let_def split: sum.splits prod.splits)
  with r have "files st1 = files st" by (metis snd_conv)
  with assms(2) show ?thesis
    by (cases r) (auto simp: Some loop_body_Some r report_and_save_def Let_def)
qed

lemma files_overlay_loop_no_txt:
  assumes "\<not> save_txt a" and "\<not> (save_img a \<and> mode a = ''images'')"
  shows "files (snd (overlay_loop L a path tc i ps loc st)) = files st"
proof (induction ps arbitrary: i loc st)
  case Nil
  then show ?case by simp
next
  case (Cons q ps)
  from assms have "files (snd (loop_body L a path tc i q loc st)) = files st"
    by (rule files_loop_body_no_txt)
  with Cons show ?case
    by (cases "loop_body L a path tc i q loc st") (auto split: sum.splits)
qed

subsection \<open>Evaluation of the concrete inputs\<close>

lemma replicate_numeral: "replicate (numeral k) x = x # replicate (pred_numeral k) x"
  by (simp add: numeral_eq_Suc)

lemmas path_eval = Path_def path_str_def path_name_def path_stem_def joinpath_def
  txt_file_def img_file_def Let_def

lemmas demo_eval = demo_lib_def demo_args_def demo_img_def demo_state_def demo_det_def
  demo_pair_def demo_frame_def fmt_general_def fmt_fixed_def pad_zeros_def torch_round_def
  cxcywh_of_def round_box_def dec.simps replicate_numeral

text \<open>
  A dictionary with no detection in it passes the guard of line 36, since it has three
  keys: the frame is reported and saved and the call returns three empty lists.
\<close>

lemma empty_dict_returns:
  assumes "boxes d = []" and "scores d = []" and "labels d = []"
  shows "overlay_boxes L [Some d] path tc a st =
           (Inr ([], [], []), report_and_save L a path tc (print_head L a 0 (img st)) st)"
  using assms
  by (simp add: overlay_boxes_def loop_body_Some detections_branch_def torch_unique_def Let_def)

subsection \<open>Counting lines\<close>

lemma line_count_append: "line_count (xs @ ys) = line_count xs + line_count ys"
  by (simp add: line_count_def)

lemma line_count_no_newline: "CHR 0x0A \<notin> set s \<Longrightarrow> line_count s = 0"
  by (induction s) (auto simp: line_count_def)

lemma line_count_det_line:
  assumes "\<And>x. CHR 0x0A \<notin> set (fmt_g L x)"
  shows "line_count (det_line L det) = 1"
proof -
  obtain xyxy conf c where det: "det = (xyxy, conf, c)" by (cases det)
  obtain x y w h where bx: "box_xyxy_to_cxcywh L xyxy = (x, y, w, h)"
    by (cases "box_xyxy_to_cxcywh L xyxy")
  have z: "line_count (fmt_g L v) = 0" for v
    by (rule line_count_no_newline) (rule assms)
  have sp: "line_count '' '' = 0" and nl: "line_count [CHR 0x0A] = 1"
    by (simp_all add: line_count_def)
  show ?thesis
    by (simp only: det det_line_def label_line_def bx prod.case line_count_append z sp nl)
qed

lemma line_count_concat:
  "(\<And>x. line_count (f x) = 1) \<Longrightarrow> line_count (concat (map f xs)) = length xs"
  by (induction xs) (simp_all add: line_count_append line_count_def)

lemma frame_lines_count:
  assumes "\<And>x. CHR 0x0A \<notin> set (fmt_g L x)"
  shows "line_count (frame_lines L ds) = length (frame_dets ds)"
  unfolding frame_lines_def
  by (rule line_count_concat) (rule line_count_det_line [OF assms])

lemma overlay_boxes_img:
  "\<forall>p \<in> set ds. pred_ok a p \<Longrightarrow>
   img (snd (overlay_boxes L ds path tc a st)) = annotate L a (frame_dets ds) (img st)"
  by (simp add: snd_overlay_boxes overlay_loop_img)

section \<open>The claims\<close>

text \<open>
  Claim C1. In every run whose frame source yields at least one frame, the loop of
  \<open>main\<close> raises while it processes the first frame: the name \<open>inference\<close> is bound
  neither in the module nor among the builtins, so the first frame ends in
  \<open>NameError\<close>; the call of \<open>overlay_boxes\<close> passes six positional arguments to five
  parameters, so it would end in \<open>TypeError\<close> whatever the module bound. Either way the
  state is the one before the frame: nothing was detected, drawn, printed or written,
  and the final report of \<open>main\<close> is not reached.
\<close>

theorem main_first_frame_raises:
  "main_loop L detect_globals inference a (fr # frs) st = (Inl NameError, st) \<and>
   main L detect_globals inference a0 file_lines rnd elapsed (fr # frs) st = (Inl NameError, st) \<and>
   length overlay_boxes_params = 5 \<and>
   call_overlay_boxes L [v1, v2, v3, v4, v5, v6] st = (Inl TypeError, st) \<and>
   (main_loop L G inference a (fr # frs) st = (Inl NameError, st) \<or>
    main_loop L G inference a (fr # frs) st = (Inl TypeError, st))"
proof -
  have step: "main_step L detect_globals inference b fr st = (Inl NameError, st)" for b
    by (simp add: main_step_def load_global_inference)
  have loop: "main_loop L detect_globals inference b (fr # frs) st = (Inl NameError, st)" for b
    by (simp add: step)
  have m: "main L detect_globals inference a0 file_lines rnd elapsed (fr # frs) st =
             (Inl NameError, st)"
    unfolding main_def Let_def by (simp only: loop) simp
  have g: "main_loop L G inference a (fr # frs) st = (Inl NameError, st) \<or>
           main_loop L G inference a (fr # frs) st = (Inl TypeError, st)"
    using main_step_fails [of L G inference a fr st] by auto
  show ?thesis
    using loop m g call_overlay_boxes_six by (simp add: overlay_boxes_params_def)
qed

theorem main_first_frame_raises_witness:
  "main_loop demo_lib detect_globals (\<lambda>im. ([Some demo_det], 0)) demo_args [demo_frame]
     demo_state = (Inl NameError, demo_state)"
  using main_first_frame_raises
    [of demo_lib "\<lambda>im. ([Some demo_det], 0)" demo_args demo_frame "[]" demo_state]
  by simp

text \<open>
  Claim C2. The claim gives the Coordinate Normalizer the frame's width and height:
  \<open>cx = (xmin+xmax)/2/W\<close>, \<open>cy = (ymin+ymax)/2/H\<close>, \<open>w = (xmax-xmin)/W\<close>,
  \<open>h = (ymax-ymin)/H\<close>, so that the box (10,20,110,220) on a 200x400 frame gives
  (0.3, 0.3, 0.5, 0.5). Line 49, under the comment "normalized xywh", calls the
  conversion with the box alone. Whatever the conversion computes, the label text that
  lines 47-51 write is the same for every frame, and the four numbers written for the
  box (10,20,110,220) cannot be the normalized ones both on a 200x400 frame and on a
  100x100 frame.
\<close>

theorem persisted_box_ignores_frame_size:
  "files (snd (write_one L a tp det (st\<lparr> img := im1 \<rparr>))) =
   files (snd (write_one L a tp det (st\<lparr> img := im2 \<rparr>))) \<and>
   spec_normalize (10, 20, 110, 220) 200 400 = (3 / 10, 3 / 10, 1 / 2, 1 / 2) \<and>
   \<not> (box_xyxy_to_cxcywh L (10, 20, 110, 220) = spec_normalize (10, 20, 110, 220) 200 400 \<and>
      box_xyxy_to_cxcywh L (10, 20, 110, 220) = spec_normalize (10, 20, 110, 220) 100 100)"
proof -
  have "files (snd (write_one L a tp det (st\<lparr> img := im1 \<rparr>))) =
        files (snd (write_one L a tp det (st\<lparr> img := im2 \<rparr>)))"
    by (cases det) (simp add: write_one_def Let_def split: sum.splits)
  moreover have "spec_normalize (10, 20, 110, 220) 200 400 = (3 / 10, 3 / 10, 1 / 2, 1 / 2)"
    by (simp add: spec_normalize_def)
  moreover have "spec_normalize (10, 20, 110, 220) 200 400 \<noteq>
                 spec_normalize (10, 20, 110, 220) 100 100"
    by (simp add: spec_normalize_def)
  ultimately show ?thesis by auto
qed

theorem persisted_box_ignores_frame_size_witness:
  "file_text (files (snd (overlay_boxes demo_lib [Some demo_det] ''zidane.jpg'' 0
      (demo_args\<lparr> save_txt := True \<rparr>) demo_state))) ''out/zidane.txt'' =
     ''2 60 120 100 200 '' @ [CHR 0x0A] \<and>
   box_xyxy_to_cxcywh demo_lib (10, 20, 110, 220) \<noteq> spec_normalize (10, 20, 110, 220) 200 400"
proof -
  have "file_text (files (snd (overlay_boxes demo_lib [Some demo_det] ''zidane.jpg'' 0
      (demo_args\<lparr> save_txt := True \<rparr>) demo_state))) ''out/zidane.txt'' =
     ''2 60 120 100 200 '' @ [CHR 0x0A]"
    by (simp add: overlay_boxes_def loop_body_Some detections_branch_def report_and_save_def
        print_head_def write_one_def label_line_def append_file_def file_text_def
        torch_unique_def py_index_def eq_sum_def path_eval demo_eval)
  moreover have "box_xyxy_to_cxcywh demo_lib (10, 20, 110, 220) \<noteq>
                 spec_normalize (10, 20, 110, 220) 200 400"
    using persisted_box_ignores_frame_size [of demo_lib]
    by (simp add: demo_lib_def cxcywh_of_def spec_normalize_def)
  ultimately show ?thesis by simp
qed

text \<open>
  Claim C3. The claim says that a frame with an empty detection set completes every
  step and that \<open>overlay_boxes\<close> returns normally. The guard of line 36 skips the
  branch for \<open>None\<close>; the frame is then reported and, in images mode, saved, but the
  return of line 64 reads \<open>boxes\<close>, \<open>scores\<close> and \<open>labels\<close>, which only that branch
  binds: the call ends in \<open>UnboundLocalError\<close>. The same happens when \<open>detections\<close>
  has no entry at all.
\<close>

theorem none_pred_unbound_locals:
  "overlay_boxes L [None] path tc a st =
     (Inl UnboundLocalError, report_and_save L a path tc (print_head L a 0 (img st)) st) \<and>
   overlay_boxes L [] path tc a st = (Inl UnboundLocalError, st)"
  by (simp add: overlay_boxes_def loop_body_None)

theorem none_pred_unbound_locals_witness:
  "overlay_boxes demo_lib [None] ''zidane.jpg'' 0 (demo_args\<lparr> save_img := True \<rparr>) demo_state =
     (Inl UnboundLocalError,
      demo_state\<lparr> console := [''400x200 Done. (0.000s)''],
                   files := [''out/zidane.jpg'' \<mapsto> ''IMG0''] \<rparr>)"
  using none_pred_unbound_locals
    [of demo_lib "''zidane.jpg''" 0 "demo_args\<lparr> save_img := True \<rparr>" demo_state]
  by (simp add: report_and_save_def print_head_def path_eval demo_eval)

text \<open>
  Claim C4, as stated: the summary lists the distinct labels in the order in which the
  detection set first shows them. The loop of line 41 runs over \<open>labels.unique()\<close>,
  which is sorted: for the labels 5, 2 the summary names class 2 before class 5.
\<close>

theorem class_summary_order_counterexample:
  "spec_first_seen [5, 2] = [5, 2] \<and> torch_unique [5, 2] = [2, 5] \<and>
   class_summary demo_lib (names demo_args) [5, 2] (torch_unique [5, 2]) [] =
     Inr ''1 cars, 1 buss, '' \<and>
   snd (overlay_boxes demo_lib [Some demo_pair] ''zidane.jpg'' 0 demo_args demo_state) =
     demo_state\<lparr> console := [''400x200 1 cars, 1 buss, Done. (0.000s)''] \<rparr>"
proof -
  have "snd (overlay_boxes demo_lib [Some demo_pair] ''zidane.jpg'' 0 demo_args demo_state) =
     demo_state\<lparr> console := [''400x200 1 cars, 1 buss, Done. (0.000s)''] \<rparr>"
    by (simp add: overlay_boxes_def loop_body_Some detections_branch_def report_and_save_def
        print_head_def write_one_def torch_unique_def py_index_def eq_sum_def demo_eval Let_def)
  then show ?thesis
    by (simp add: spec_first_seen_def torch_unique_def py_index_def eq_sum_def demo_eval Let_def)
qed

text \<open>
  Claim C4, amended: for a detection set whose labels all index the name table, the
  summary lists each distinct label exactly once, with its count and the class name
  followed by \<open>s\<close>, in ascending order of the label; for the labels 2, 2, 5 it reports
  two of class 2, then one of class 5.
\<close>

theorem class_summary_ascending:
  assumes "\<forall>l \<in> set lbls. valid_index nms l"
  shows "class_summary L nms lbls (torch_unique lbls) s =
           Inr (s @ concat (map (summary_entry L nms lbls) (torch_unique lbls))) \<and>
         sorted (torch_unique lbls) \<and> distinct (torch_unique lbls) \<and>
         set (torch_unique lbls) = set lbls"
proof -
  from assms have "\<forall>c \<in> set (torch_unique lbls). valid_index nms c"
    by (simp add: set_torch_unique)
  then have "class_summary L nms lbls (torch_unique lbls) s =
           Inr (s @ concat (map (summary_entry L nms lbls) (torch_unique lbls)))"
    by (rule class_summary_valid)
  then show ?thesis
    by (simp add: torch_unique_def)
qed

theorem class_summary_ascending_witness:
  "valid_index (names demo_args) 2 \<and> valid_index (names demo_args) 5 \<and>
   torch_unique [2, 2, 5] = [2, 5] \<and>
   class_summary demo_lib (names demo_args) [2, 2, 5] (torch_unique [2, 2, 5]) [] =
     Inr ''2 cars, 1 buss, ''"
proof -
  have h: "\<forall>l \<in> set [2, 2, 5]. valid_index (names demo_args) l"
    by (simp add: valid_index_def demo_args_def)
  have u: "torch_unique [2, 2, 5] = [2, 5]"
    by (simp add: torch_unique_def)
  from class_summary_ascending [OF h, of demo_lib "[]"]
  have "class_summary demo_lib (names demo_args) [2, 2, 5] (torch_unique [2, 2, 5]) [] =
          Inr (concat (map (summary_entry demo_lib (names demo_args) [2, 2, 5])
                 (torch_unique [2, 2, 5])))"
    by simp
  then have "class_summary demo_lib (names demo_args) [2, 2, 5] (torch_unique [2, 2, 5]) [] =
     Inr ''2 cars, 1 buss, ''"
    by (simp add: u summary_entry_def py_get_def demo_eval)
  with h u show ?thesis by simp
qed

text \<open>
  Claim C5. When a detection of the frame carries a label beyond the last index of
  the name table, the class summary fails on it with \<open>IndexError\<close> before the write
  loop starts: the call ends there and the state is the one before the frame, so no
  label line was appended, nothing was drawn and no image was written.
\<close>

theorem bad_label_is_fatal:
  assumes "l \<in> set (labels d)" and "int (length (names a)) \<le> l"
  shows "overlay_boxes L (Some d # rest) path tc a st = (Inl IndexError, st)"
proof -
  from assms(2) have "\<not> valid_index (names a) l"
    by (simp add: valid_index_def)
  moreover from assms(1) have "l \<in> set (torch_unique (labels d))"
    by (simp add: set_torch_unique)
  ultimately have "class_summary L (names a) (labels d) (torch_unique (labels d)) s =
      Inl IndexError" for s
    by (rule class_summary_invalid [rotated])
  then have "detections_branch L a tp d s st = (Inl IndexError, st)" for tp s
    by (simp add: detections_branch_def Let_def)
  then have "loop_body L a path tc 0 (Some d) None st = (Inl IndexError, st)"
    by (simp add: loop_body_Some)
  then show ?thesis
    by (simp add: overlay_boxes_def)
qed

theorem bad_label_is_fatal_witness:
  "6 \<in> set (labels (demo_pair\<lparr> labels := [2, 6] \<rparr>)) \<and>
   int (length (names demo_args)) \<le> 6 \<and>
   overlay_boxes demo_lib [Some (demo_pair\<lparr> labels := [2, 6] \<rparr>)] ''zidane.jpg'' 0
     (demo_args\<lparr> save_txt := True, save_img := True \<rparr>) demo_state =
     (Inl IndexError, demo_state)"
proof -
  have h1: "6 \<in> set (labels (demo_pair\<lparr> labels := [2, 6] \<rparr>))" by simp
  have h2: "int (length (names (demo_args\<lparr> save_txt := True, save_img := True \<rparr>))) \<le> 6"
    by (simp add: demo_args_def)
  from bad_label_is_fatal [OF h1 h2] h1 h2 show ?thesis by simp
qed

text \<open>
  Claim C6. With \<open>save_txt\<close> set and every label a valid index, a run of
  \<open>overlay_boxes\<close> appends to the file \<open><output_dir>/<stem of path>.txt\<close> the text
  \<open>frame_lines\<close>: for each detection, in order, the label and the four numbers of the
  box conversion, each followed by a space, closed by a newline. The file is opened for
  appending: earlier content stays in front, each detection adds exactly one line (when
  the number format prints no newline), and a second run over the same detections
  doubles the line count of a first run that started without the file. The four
  numbers are those of \<open>box_xyxy_to_cxcywh\<close> (see claim C2).
\<close>

theorem label_lines_appended:
  assumes "save_txt a" and "\<forall>p \<in> set ds. pred_ok a p" and "no_collision a path"
  shows "file_text (files (snd (overlay_boxes L ds path tc a st))) (txt_file a path) =
           file_text (files st) (txt_file a path) @ frame_lines L ds \<and>
         frame_lines L ds = concat (map (\<lambda>(xyxy, conf, cls_name). label_line L cls_name xyxy)
                                     (frame_dets ds)) \<and>
         ((\<forall>x. CHR 0x0A \<notin> set (fmt_g L x)) \<longrightarrow>
            line_count (file_text (files (snd (overlay_boxes L ds path tc a st))) (txt_file a path)) =
            line_count (file_text (files st) (txt_file a path)) + length (frame_dets ds)) \<and>
         (files st (txt_file a path) = None \<and>
          files st2 (txt_file a path) = files (snd (overlay_boxes L ds path tc a st)) (txt_file a path) \<longrightarrow>
            line_count (file_text (files (snd (overlay_boxes L ds path tc a st2))) (txt_file a path)) =
            2 * line_count (file_text (files (snd (overlay_boxes L ds path tc a st))) (txt_file a path)))"
proof -
  have run: "file_text (files (snd (overlay_boxes L ds path tc a s))) (txt_file a path) =
             file_text (files s) (txt_file a path) @ frame_lines L ds" for s
    using overlay_loop_txt [OF assms(2,3), of L tc 0 None s] assms(1)
    by (simp add: snd_overlay_boxes)
  have form: "frame_lines L ds = concat (map (\<lambda>(xyxy, conf, cls_name). label_line L cls_name xyxy)
                                     (frame_dets ds))"
    by (simp add: frame_lines_def det_line_def [abs_def])
  have cnt: "line_count (file_text (files (snd (overlay_boxes L ds path tc a st))) (txt_file a path)) =
            line_count (file_text (files st) (txt_file a path)) + length (frame_dets ds)"
    if "\<forall>x. CHR 0x0A \<notin> set (fmt_g L x)"
    using that by (simp add: run line_count_append frame_lines_count)
  have dbl: "line_count (file_text (files (snd (overlay_boxes L ds path tc a st2))) (txt_file a path)) =
            2 * line_count (file_text (files (snd (overlay_boxes L ds path tc a st))) (txt_file a path))"
    if "files st (txt_file a path) = None"
      and "files st2 (txt_file a path) = files (snd (overlay_boxes L ds path tc a st)) (txt_file a path)"
  proof -
    from that(1) have e: "file_text (files st) (txt_file a path) = []"
      by (simp add: file_text_def)
    from that(2) have "file_text (files st2) (txt_file a path) =
        file_text (files (snd (overlay_boxes L ds path tc a st))) (txt_file a path)"
      by (simp add: file_text_def)
    then have "file_text (files (snd (overlay_boxes L ds path tc a st2))) (txt_file a path) =
        frame_lines L ds @ frame_lines L ds"
      by (simp add: run [of st2] run [of st] e)
    then show ?thesis
      by (simp add: run [of st] e line_count_append)
  qed
  from run [of st] form cnt dbl show ?thesis by blast
qed

theorem label_lines_appended_witness:
  "file_text (files (snd (overlay_boxes demo_lib [Some demo_pair] ''zidane.jpg'' 0
      (demo_args\<lparr> save_txt := True \<rparr>) demo_state))) ''out/zidane.txt'' =
     ''5 60 120 100 200 '' @ [CHR 0x0A] @ ''2 2 3 2 2 '' @ [CHR 0x0A] \<and>
   line_count (file_text (files (snd (overlay_boxes demo_lib [Some demo_pair] ''zidane.jpg'' 0
      (demo_args\<lparr> save_txt := True \<rparr>)
      (snd (overlay_boxes demo_lib [Some demo_pair] ''zidane.jpg'' 0
         (demo_args\<lparr> save_txt := True \<rparr>) demo_state))))) ''out/zidane.txt'') = 4"
proof -
  let ?a = "demo_args\<lparr> save_txt := True \<rparr>"
  let ?st1 = "snd (overlay_boxes demo_lib [Some demo_pair] ''zidane.jpg'' 0 ?a demo_state)"
  have tf: "txt_file ?a ''zidane.jpg'' = ''out/zidane.txt''"
    by (simp add: path_eval demo_eval)
  have h1: "save_txt ?a" by simp
  have h2: "\<forall>p \<in> set [Some demo_pair]. pred_ok ?a p"
    by (simp add: pred_ok_def labels_ok_def valid_index_def demo_args_def demo_pair_def)
  have h3: "no_collision ?a ''zidane.jpg''"
    by (simp add: no_collision_def demo_args_def)
  have fl: "frame_lines demo_lib [Some demo_pair] =
      ''5 60 120 100 200 '' @ [CHR 0x0A] @ ''2 2 3 2 2 '' @ [CHR 0x0A]"
    by (simp add: frame_lines_def frame_dets_def pred_dets_def det_list_def det_line_def
        label_line_def demo_eval Let_def)
  note inst = label_lines_appended [OF h1 h2 h3, of demo_lib 0 demo_state "?st1", unfolded tf]
  have c1: "file_text (files ?st1) ''out/zidane.txt'' =
      ''5 60 120 100 200 '' @ [CHR 0x0A] @ ''2 2 3 2 2 '' @ [CHR 0x0A]"
    using inst by (simp add: fl file_text_def demo_state_def)
  have "line_count (file_text (files (snd (overlay_boxes demo_lib [Some demo_pair]
          ''zidane.jpg'' 0 ?a ?st1))) ''out/zidane.txt'') =
        2 * line_count (file_text (files ?st1) ''out/zidane.txt'')"
    using inst by (simp add: demo_state_def)
  then have c2: "line_count (file_text (files (snd (overlay_boxes demo_lib [Some demo_pair]
          ''zidane.jpg'' 0 ?a ?st1))) ''out/zidane.txt'') = 4"
    by (simp add: c1 line_count_def)
  from c1 c2 show ?thesis by simp
qed

text \<open>
  Claim C7, as stated: with \<open>save_img\<close> set and a video or stream source, each annotated
  frame is appended to a persistent video writer keyed by the source path. The module
  has no video writer: line 61 saves only in images mode. For a frame of the video
  \<open>clip.mp4\<close> the call draws the box on the frame in memory, prints the summary and
  leaves the output directory as it was, here empty.
\<close>

theorem video_frame_counterexample:
  "overlay_boxes demo_lib [Some demo_det] ''clip.mp4'' 0
     (demo_args\<lparr> save_img := True, mode := ''video'' \<rparr>) demo_state =
     (Inr ([(10, 20, 110, 220)], [9 / 10], [2]),
      demo_state\<lparr> console := [''400x200 1 cars, Done. (0.000s)''],
                   img := demo_img\<lparr> drawn := [\<lparr> ov_box = (10, 20, 110, 220),
                             ov_label = ''car 0.90'', ov_color = [7, 8, 9],
                             ov_thickness = 3 \<rparr>] \<rparr> \<rparr>) \<and>
   files (snd (overlay_boxes demo_lib [Some demo_det] ''clip.mp4'' 0
     (demo_args\<lparr> save_img := True, mode := ''video'' \<rparr>) demo_state)) = Map.empty"
proof -
  have "overlay_boxes demo_lib [Some demo_det] ''clip.mp4'' 0
     (demo_args\<lparr> save_img := True, mode := ''video'' \<rparr>) demo_state =
     (Inr ([(10, 20, 110, 220)], [9 / 10], [2]),
      demo_state\<lparr> console := [''400x200 1 cars, Done. (0.000s)''],
                   img := demo_img\<lparr> drawn := [\<lparr> ov_box = (10, 20, 110, 220),
                             ov_label = ''car 0.90'', ov_color = [7, 8, 9],
                             ov_thickness = 3 \<rparr>] \<rparr> \<rparr>)"
    by (simp add: overlay_boxes_def loop_body_Some detections_branch_def report_and_save_def
        print_head_def write_one_def plot_one_box_def torch_unique_def py_index_def eq_sum_def
        demo_eval Let_def)
  then show ?thesis by (simp add: demo_state_def)
qed

text \<open>
  Claim C7, amended: when the source mode is not \<open>images\<close> (video or stream), the
  annotated frame is not persisted, with or without \<open>save_img\<close>: a run changes no file
  other than the frame's label text file, and no file at all when \<open>save_txt\<close> is unset.
\<close>

theorem video_mode_persists_no_frame:
  assumes "mode a \<noteq> ''images''"
  shows "(p \<noteq> txt_file a path \<longrightarrow>
            files (snd (overlay_boxes L ds path tc a st)) p = files st p) \<and>
         (\<not> save_txt a \<longrightarrow> files (snd (overlay_boxes L ds path tc a st)) = files st)"
proof -
  from assms have n: "\<not> (save_img a \<and> mode a = ''images'' \<and> q = img_file a path)" for q
    by simp
  have "files (snd (overlay_boxes L ds path tc a st)) p = files st p" if "p \<noteq> txt_file a path"
    using files_overlay_loop [OF that n] by (simp add: snd_overlay_boxes)
  moreover have "files (snd (overlay_boxes L ds path tc a st)) = files st" if "\<not> save_txt a"
    using files_overlay_loop_no_txt [OF that, of L path tc 0 ds None st] assms
    by (simp add: snd_overlay_boxes)
  ultimately show ?thesis by blast
qed

theorem video_mode_persists_no_frame_witness:
  "files (snd (overlay_boxes demo_lib [Some demo_det] ''clip.mp4'' 0
     (demo_args\<lparr> save_txt := True, save_img := True, mode := ''video'' \<rparr>) demo_state))
     ''out/clip.mp4'' = None"
proof -
  let ?a = "demo_args\<lparr> save_txt := True, save_img := True, mode := ''video'' \<rparr>"
  have h: "mode ?a \<noteq> ''images''" by simp
  have ne: "''out/clip.mp4'' \<noteq> txt_file ?a ''clip.mp4''"
    by (simp add: path_eval demo_eval)
  from video_mode_persists_no_frame [OF h, of "''out/clip.mp4''" "''clip.mp4''"] ne
  show ?thesis by (simp add: demo_state_def)
qed






text \<open>
  Claim C10. The palette built at line 96 has one entry per class name, each a triple
  of channel values below 255, and \<open>overlay_boxes\<close> draws a detection of label \<open>l\<close> in
  the colour that the palette holds at index \<open>l\<close>. The palette is a component of
  \<open>args\<close>, which \<open>overlay_boxes\<close> reads and never assigns, so the colour of a label is
  the same triple in every frame of a run.
\<close>

theorem palette_fixed_colour_per_label:
  "length (colors (names_and_colors a0 file_lines rnd)) =
     length (names (names_and_colors a0 file_lines rnd)) \<and>
   (\<forall>c \<in> set (colors (names_and_colors a0 file_lines rnd)).
      length c = 3 \<and> (\<forall>x \<in> set c. x < 255)) \<and>
   ((\<forall>p \<in> set ds. pred_ok a p) \<and> (save_img a \<or> view_img a) \<longrightarrow>
      drawn (img (snd (overlay_boxes L ds path tc a st))) =
      drawn (img st) @ map (overlay_of L a) (frame_dets ds)) \<and>
   ov_color (overlay_of L a (xyxy, conf, l)) = py_get (colors a) l"
proof -
  have "length (colors (names_and_colors a0 file_lines rnd)) =
     length (names (names_and_colors a0 file_lines rnd))"
    by (simp add: names_and_colors_def build_colors_def Let_def)
  moreover have "\<forall>c \<in> set (colors (names_and_colors a0 file_lines rnd)).
      length c = 3 \<and> (\<forall>x \<in> set c. x < 255)"
    by (auto simp: names_and_colors_def build_colors_def Let_def)
  moreover have "drawn (img (snd (overlay_boxes L ds path tc a st))) =
      drawn (img st) @ map (overlay_of L a) (frame_dets ds)"
    if "\<forall>p \<in> set ds. pred_ok a p" and "save_img a \<or> view_img a"
    using that by (simp add: overlay_boxes_img annotate_def)
  moreover have "ov_color (overlay_of L a (xyxy, conf, l)) = py_get (colors a) l"
    by (simp add: overlay_of_def)
  ultimately show ?thesis by blast
qed

theorem palette_fixed_colour_per_label_witness:
  "colors (names_and_colors demo_args [''person'', ''bicycle''] (\<lambda>k. 100 * k)) =
     [[0, 100, 200], [45, 145, 245]] \<and>
   map ov_color (drawn (img (snd (overlay_boxes demo_lib [Some demo_pair, Some demo_det]
      ''zidane.jpg'' 0 (demo_args\<lparr> save_img := True \<rparr>) demo_state)))) =
     [[16, 17, 18], [7, 8, 9], [7, 8, 9]]"
proof -
  let ?a = "demo_args\<lparr> save_img := True \<rparr>"
  have h: "(\<forall>p \<in> set [Some demo_pair, Some demo_det]. pred_ok ?a p) \<and>
           (save_img ?a \<or> view_img ?a)"
    by (simp add: pred_ok_def labels_ok_def valid_index_def demo_args_def demo_pair_def
        demo_det_def)
  have c: "colors (names_and_colors demo_args [''person'', ''bicycle''] (\<lambda>k. 100 * k)) =
     [[0, 100, 200], [45, 145, 245]]"
    by (simp add: names_and_colors_def build_colors_def get_coco_names_def Let_def
        upt_rec [of _ "numeral n" for n] upt_rec [of _ "Suc n" for n])
  have d: "map (ov_color \<circ> overlay_of demo_lib ?a) (frame_dets [Some demo_pair, Some demo_det]) =
     [[16, 17, 18], [7, 8, 9], [7, 8, 9]]"
    by (simp add: overlay_of_def frame_dets_def pred_dets_def det_list_def py_get_def
        demo_args_def demo_pair_def demo_det_def)
  from palette_fixed_colour_per_label
    [of demo_args "[''person'', ''bicycle'']" "\<lambda>k. 100 * k" "[Some demo_pair, Some demo_det]"
        ?a demo_lib "''zidane.jpg''" 0 demo_state] h
  have "drawn (img (snd (overlay_boxes demo_lib [Some demo_pair, Some demo_det]
      ''zidane.jpg'' 0 ?a demo_state))) =
      drawn (img demo_state) @ map (overlay_of demo_lib ?a) (frame_dets [Some demo_pair, Some demo_det])"
    by blast
  then have "map ov_color (drawn (img (snd (overlay_boxes demo_lib [Some demo_pair, Some demo_det]
      ''zidane.jpg'' 0 ?a demo_state)))) = [[16, 17, 18], [7, 8, 9], [7, 8, 9]]"
    by (simp add: d demo_state_def demo_img_def)
  with c show ?thesis by simp
qed

end
